theory Spec2Isabelle
  imports
    Complex_Main
    "HOL-Library.Char_ord"
    "HOL-Library.List_Lexorder"
begin

section \<open>Travel expense tracker: data layer and aggregation engine\<close>

text \<open>
  A shallow embedding of \<^verbatim>\<open>db.js\<close> (the IndexedDB wrapper) and of the arithmetic,
  validation and submit handlers of the application script.

  Conventions of the model:
  \<^item> A JavaScript string is a \<open>string\<close>; one \<open>char\<close> stands for one UTF-16 code unit,
    so the model covers ASCII text. \<open>trim\<close>, \<open>toUpperCase\<close> and \<open>toLowerCase\<close>
    are the ASCII restrictions of the JavaScript methods.
  \<^item> A JavaScript number that holds money or a rate is a \<open>rat\<close>: arithmetic is exact.
    The rounding error of IEEE-754 doubles, \<open>NaN\<close> and the infinities are not
    modelled; a numeric form field holds the value that \<open>Number(field.value)\<close> yields.
  \<^item> A time stamp (\<open>Date.now()\<close>, a \<open>Date\<close> object) is an \<open>int\<close>, in milliseconds.
  \<^item> \<open>Date.now()\<close>, \<open>uid\<close> and \<open>window.confirm\<close> are inputs of the handlers.
  \<^item> Record fields carry a prefix (\<open>t_\<close> trip, \<open>e_\<close> expense, \<open>f_\<close> filters and so
    on), since a field name is a global constant and several source objects share
    \<open>id\<close>, \<open>createdAt\<close>, \<open>key\<close> and \<open>value\<close>.
\<close>

subsection \<open>JavaScript string helpers\<close>

text \<open>\<open>s.split(sep)\<close> for a one-character separator: never the empty array.\<close>

fun split :: "char \<Rightarrow> string \<Rightarrow> string list" where
  "split sep [] = [[]]"
| "split sep (c # cs) =
     (if c = sep then [] # split sep cs
      else (case split sep cs of
              [] \<Rightarrow> [[c]]
            | w # ws \<Rightarrow> (c # w) # ws))"

definition isWhite :: "char \<Rightarrow> bool" where
  "isWhite c \<longleftrightarrow> c \<in> {CHR '' '', CHR 0x09, CHR 0x0A, CHR 0x0B, CHR 0x0C, CHR 0x0D}"

definition trim :: "string \<Rightarrow> string" where
  "trim s = rev (dropWhile isWhite (rev (dropWhile isWhite s)))"

definition toUpperCase :: "string \<Rightarrow> string" where
  "toUpperCase s =
     map (\<lambda>c. if CHR ''a'' \<le> c \<and> c \<le> CHR ''z''
               then char_of (of_char c - (32::nat)) else c) s"

definition toLowerCase :: "string \<Rightarrow> string" where
  "toLowerCase s =
     map (\<lambda>c. if CHR ''A'' \<le> c \<and> c \<le> CHR ''Z''
               then char_of (of_char c + (32::nat)) else c) s"

text \<open>\<open>parts.join(sep)\<close>.\<close>

fun join :: "string \<Rightarrow> string list \<Rightarrow> string" where
  "join sep [] = []"
| "join sep [x] = x"
| "join sep (x # y # ys) = x @ sep @ join sep (y # ys)"

text \<open>\<open>hay.includes(needle)\<close>: the needle occurs as a contiguous run.\<close>

fun startsWith :: "string \<Rightarrow> string \<Rightarrow> bool" where
  "startsWith hay [] = True"
| "startsWith [] (n # ns) = False"
| "startsWith (h # hs) (n # ns) = (h = n \<and> startsWith hs ns)"

fun includesStr :: "string \<Rightarrow> string \<Rightarrow> bool" where
  "includesStr [] needle = (needle = [])"
| "includesStr (h # hs) needle = (startsWith (h # hs) needle \<or> includesStr hs needle)"

text \<open>\<open>Boolean(s)\<close> for a string, as used by \<open>.filter(Boolean)\<close>.\<close>

definition truthy :: "string \<Rightarrow> bool" where
  "truthy s \<longleftrightarrow> s \<noteq> []"

text \<open>\<open>a || b\<close> on strings and on numbers.\<close>

definition orStr :: "string \<Rightarrow> string \<Rightarrow> string" where
  "orStr a b = (if a = [] then b else a)"

definition orNum :: "'a::zero \<Rightarrow> 'a \<Rightarrow> 'a" where
  "orNum a b = (if a = 0 then b else a)"

text \<open>
  \<open>xs.sort(cmp)\<close>: the stable sort by a comparator. \<open>after a b\<close> stands for
  \<open>cmp(a, b) > 0\<close>, that is, \<open>a\<close> has to come after \<open>b\<close>.
\<close>

fun insertSorted :: "('a \<Rightarrow> 'a \<Rightarrow> bool) \<Rightarrow> 'a \<Rightarrow> 'a list \<Rightarrow> 'a list" where
  "insertSorted after x [] = [x]"
| "insertSorted after x (y # ys) =
     (if after x y then y # insertSorted after x ys else x # y # ys)"

definition jsSort :: "('a \<Rightarrow> 'a \<Rightarrow> bool) \<Rightarrow> 'a list \<Rightarrow> 'a list" where
  "jsSort after xs = foldr (insertSorted after) xs []"

subsection \<open>Records of the four object stores\<close>

record trip =
  t_id :: string
  t_name :: string
  t_startDate :: string
  t_endDate :: string
  t_baseCurrency :: string
  t_currencies :: "string list"
  t_budgetEnabled :: bool
  t_budgetAmountBase :: rat
  t_dailyBudgetAmountBase :: "rat option"
  t_createdAt :: int

record expense =
  e_id :: string
  e_tripId :: string
  e_dateTime :: string
  e_amountOriginal :: rat
  e_currency :: string
  e_fxRateToBase :: rat
  e_amountBase :: rat
  e_category :: string
  e_payment :: string
  e_note :: string
  e_paidBy :: string
  e_location :: string
  e_tags :: "string list"
  e_createdAt :: int
  e_updatedAt :: int

text \<open>Rows of \<open>meta\<close> and \<open>settings\<close>: \<^verbatim>\<open>{ key, value }\<close>, key path \<open>key\<close>.\<close>

record metaRow =
  m_key :: string
  m_value :: string

record settingsRow =
  s_key :: string
  s_value :: "string list"

record db =
  meta :: "metaRow list"
  settings :: "settingsRow list"
  trips :: "trip list"
  expenses :: "expense list"

subsection \<open>Object store operations\<close>

text \<open>
  An object store with a key path is the list of its records; \<open>keyOf\<close> reads the key
  path. \<open>put\<close> replaces the record with the same key or adds a new one, \<open>delete\<close> removes
  by key, \<open>clear\<close> empties the store. The iteration order of IndexedDB (by key) is not
  modelled: a new record goes to the end.
\<close>

definition store_get :: "('r \<Rightarrow> string) \<Rightarrow> string \<Rightarrow> 'r list \<Rightarrow> 'r option" where
  "store_get keyOf k rs = find (\<lambda>r. keyOf r = k) rs"

fun store_put :: "('r \<Rightarrow> string) \<Rightarrow> 'r \<Rightarrow> 'r list \<Rightarrow> 'r list" where
  "store_put keyOf r [] = [r]"
| "store_put keyOf r (x # xs) =
     (if keyOf x = keyOf r then r # xs else x # store_put keyOf r xs)"

definition store_delete :: "('r \<Rightarrow> string) \<Rightarrow> string \<Rightarrow> 'r list \<Rightarrow> 'r list" where
  "store_delete keyOf k rs = filter (\<lambda>r. keyOf r \<noteq> k) rs"

subsection \<open>Constants of \<^verbatim>\<open>db.js\<close>\<close>

definition SCHEMA_VERSION :: string where
  "SCHEMA_VERSION = ''1.0.0''"

definition DEFAULT_categories :: "string list" where
  "DEFAULT_categories =
     [''Flights'', ''Lodging'', ''Local transport'', ''Food & drinks'', ''Attractions'',
      ''Shopping'', ''SIM/Internet'', ''Fees (ATM/baggage/etc.)'', ''Misc'', ''Souvenirs'']"

definition DEFAULT_paymentMethods :: "string list" where
  "DEFAULT_paymentMethods = [''Cash'', ''Wise'', ''Apple Pay'', ''Other'']"

subsection \<open>\<open>initializeDb\<close>\<close>

text \<open>
  One read-write transaction over \<open>meta\<close> and \<open>settings\<close>: each of the three keys is read
  and, when no record is found, seeded. A record object is always truthy, so
  \<^verbatim>\<open>if (!schema)\<close> tests the absence of the record, whatever its value.
\<close>

definition initializeDb :: "db \<Rightarrow> db" where
  "initializeDb d =
     (let d1 = (case store_get m_key ''schemaVersion'' (meta d) of
                  None \<Rightarrow> d\<lparr>meta := store_put m_key
                              \<lparr>m_key = ''schemaVersion'', m_value = SCHEMA_VERSION\<rparr> (meta d)\<rparr>
                | Some schema \<Rightarrow> d);
          d2 = (case store_get s_key ''categories'' (settings d1) of
                  None \<Rightarrow> d1\<lparr>settings := store_put s_key
                              \<lparr>s_key = ''categories'', s_value = DEFAULT_categories\<rparr> (settings d1)\<rparr>
                | Some categories \<Rightarrow> d1);
          d3 = (case store_get s_key ''paymentMethods'' (settings d2) of
                  None \<Rightarrow> d2\<lparr>settings := store_put s_key
                              \<lparr>s_key = ''paymentMethods'', s_value = DEFAULT_paymentMethods\<rparr> (settings d2)\<rparr>
                | Some payments \<Rightarrow> d2)
      in d3)"

subsection \<open>Transactions and failures\<close>

datatype error =
    RequestFailed   \<comment> \<open>an IndexedDB request fired \<open>onerror\<close>\<close>
  | Thrown          \<comment> \<open>a JavaScript exception (\<open>TypeError\<close>) left the function\<close>

text \<open>
  \<open>runTx\<close> opens one IndexedDB transaction, runs the handler in it and waits for
  \<open>oncomplete\<close>. The handler works on the transaction's view of the stores. When a
  request of the handler fails, the transaction aborts: nothing it wrote becomes
  visible and the promise is rejected. Otherwise everything it wrote is committed
  together. This is the behaviour of the storage engine, taken as given.
\<close>

definition runTx :: "(db \<Rightarrow> error + 'a \<times> db) \<Rightarrow> db \<Rightarrow> (error + 'a) \<times> db" where
  "runTx handler d =
     (case handler d of
        Inl e \<Rightarrow> (Inl e, d)
      | Inr (result, d') \<Rightarrow> (Inr result, d'))"

text \<open>
  The operations below, apart from \<open>deleteTripCascade\<close>, are modelled on their
  successful run, as functions of the store.
\<close>

definition getSettings :: "db \<Rightarrow> string list \<times> string list" where
  "getSettings d =
     ((case store_get s_key ''categories'' (settings d) of
         None \<Rightarrow> DEFAULT_categories | Some row \<Rightarrow> s_value row),
      (case store_get s_key ''paymentMethods'' (settings d) of
         None \<Rightarrow> DEFAULT_paymentMethods | Some row \<Rightarrow> s_value row))"

definition saveSettings :: "string list \<Rightarrow> string list \<Rightarrow> db \<Rightarrow> db" where
  "saveSettings categories paymentMethods d =
     d\<lparr>settings :=
         store_put s_key \<lparr>s_key = ''paymentMethods'', s_value = paymentMethods\<rparr>
           (store_put s_key \<lparr>s_key = ''categories'', s_value = categories\<rparr> (settings d))\<rparr>"

definition getTripById :: "string \<Rightarrow> db \<Rightarrow> trip option" where
  "getTripById k d = store_get t_id k (trips d)"

definition upsertTrip :: "trip \<Rightarrow> db \<Rightarrow> db" where
  "upsertTrip t d = d\<lparr>trips := store_put t_id t (trips d)\<rparr>"

definition getExpensesByTrip :: "string \<Rightarrow> db \<Rightarrow> expense list" where
  "getExpensesByTrip tripId d = filter (\<lambda>e. e_tripId e = tripId) (expenses d)"

definition getExpenseById :: "string \<Rightarrow> db \<Rightarrow> expense option" where
  "getExpenseById k d = store_get e_id k (expenses d)"

definition upsertExpense :: "expense \<Rightarrow> db \<Rightarrow> db" where
  "upsertExpense e d = d\<lparr>expenses := store_put e_id e (expenses d)\<rparr>"

definition deleteExpense :: "string \<Rightarrow> db \<Rightarrow> db" where
  "deleteExpense k d = d\<lparr>expenses := store_delete e_id k (expenses d)\<rparr>"

subsection \<open>\<open>deleteTripCascade\<close>\<close>

text \<open>
  The requests of the transaction are numbered: request 0 deletes the trip, request 1
  opens the cursor on the index \<open>tripId\<close> restricted to the one key, and every
  \<open>cursor.continue()\<close> is the next request. \<open>flt\<close> is the number of the request at
  which the storage engine fails, if any. Each \<open>onsuccess\<close> with a cursor deletes the
  record under the cursor (by its primary key) and moves on; \<open>onsuccess\<close> without a
  cursor ends the loop. A failing \<open>cursor.delete()\<close> or a failing commit aborts the
  transaction just as a failing \<open>continue\<close> does, so it needs no number of its own.
\<close>

function deleteCursor :: "nat option \<Rightarrow> nat \<Rightarrow> string \<Rightarrow> expense list \<Rightarrow> error + expense list" where
  "deleteCursor flt n tripId es =
     (if flt = Some n then Inl RequestFailed
      else (case find (\<lambda>e. e_tripId e = tripId) es of
              None \<Rightarrow> Inr es
            | Some cursor \<Rightarrow> deleteCursor flt (Suc n) tripId (store_delete e_id (e_id cursor) es)))"
  by pat_completeness auto
termination
proof (relation "measure (\<lambda>(flt, n, tripId, es). length es)")
  show "wf (measure (\<lambda>(flt, n, tripId, es). length es))"
    by simp
next
  fix flt :: "nat option" and n :: nat and tripId :: string and es :: "expense list" and cursor
  assume "find (\<lambda>e. e_tripId e = tripId) es = Some cursor"
  then have "cursor \<in> set es"
    by (auto simp: find_Some_iff)
  then have "length (filter (\<lambda>r. e_id r \<noteq> e_id cursor) es) < length es"
    by (intro length_filter_less) auto
  then show "((flt, Suc n, tripId, store_delete e_id (e_id cursor) es), (flt, n, tripId, es))
               \<in> measure (\<lambda>(flt, n, tripId, es). length es)"
    by (simp add: store_delete_def)
qed

declare deleteCursor.simps [simp del]

definition deleteTripCascade :: "nat option \<Rightarrow> string \<Rightarrow> db \<Rightarrow> (error + unit) \<times> db" where
  "deleteTripCascade flt tripId d =
     runTx (\<lambda>tx.
        if flt = Some 0 then Inl RequestFailed
        else (let tx1 = tx\<lparr>trips := store_delete t_id tripId (trips tx)\<rparr>
              in case deleteCursor flt 1 tripId (expenses tx1) of
                   Inl e \<Rightarrow> Inl e
                 | Inr es \<Rightarrow> Inr ((), tx1\<lparr>expenses := es\<rparr>))) d"

subsection \<open>Application state and form fields\<close>

record filters =
  f_startDate :: string
  f_endDate :: string
  f_category :: string
  f_payment :: string
  f_search :: string

text \<open>
  The snapshot payload as \<open>JSON.parse\<close> delivers it. An array-valued property is
  \<open>Undefined\<close> when absent, \<open>Arr xs\<close> when it is an array, and \<open>Other b\<close> for any other
  value, \<open>b\<close> telling whether the value is truthy.
\<close>

datatype 'a jsfield = Undefined | Other bool | Arr "'a list"

record config =
  c_categories :: "string list option"
  c_paymentMethods :: "string list option"

record payload =
  p_schemaVersion :: "string option"
  p_trips :: "trip jsfield"
  p_expenses :: "expense jsfield"
  p_config :: "config option"

text \<open>The part of the global \<open>state\<close> object that the modelled functions read or write.\<close>

record appState =
  st_trips :: "trip list"
  st_activeTripId :: string
  st_expenses :: "expense list"
  st_filters :: filters
  st_editingTripId :: "string option"
  st_editingExpenseId :: "string option"
  st_pendingRestore :: "payload option"

text \<open>What the host supplies during one handler run.\<close>

record host =
  h_uid :: string             \<comment> \<open>the value of \<open>uid(prefix)\<close>\<close>
  h_now :: int                \<comment> \<open>\<open>Date.now()\<close>\<close>
  h_nowLocal :: string        \<comment> \<open>\<open>nowLocalDateTimeInput()\<close>\<close>

record tripForm =
  tripName :: string
  tripStartDate :: string
  tripEndDate :: string
  tripBaseCurrency :: string
  tripCurrencies :: string
  tripBudgetEnabled :: bool
  tripBudgetAmount :: rat                   \<comment> \<open>\<open>Number(els.tripBudgetAmount.value)\<close>\<close>
  tripDailyBudgetAmount :: "rat option"     \<comment> \<open>\<open>None\<close> when the field is empty\<close>

record expenseForm =
  expDateTime :: string
  expAmountOriginal :: rat                  \<comment> \<open>\<open>Number(els.expAmountOriginal.value)\<close>\<close>
  expCurrency :: string
  expFx :: rat                              \<comment> \<open>\<open>Number(els.expFx.value)\<close>\<close>
  expCategory :: string
  expPayment :: string
  expNote :: string
  expPaidBy :: string
  expLocation :: string
  expTags :: string

text \<open>\<open>Boolean(state.editingTripId)\<close>: \<open>null\<close> and the empty string are falsy.\<close>

definition isSet :: "string option \<Rightarrow> bool" where
  "isSet v = (case v of None \<Rightarrow> False | Some s \<Rightarrow> s \<noteq> [])"

definition activeTrip :: "appState \<Rightarrow> trip option" where
  "activeTrip st = find (\<lambda>t. t_id t = st_activeTripId st) (st_trips st)"


subsection \<open>Conversion and rounding\<close>

text \<open>\<open>Math.round\<close>: the nearest integer, a tie going up.\<close>

definition mathRound :: "rat \<Rightarrow> int" where
  "mathRound x = \<lfloor>x + 1 / 2\<rfloor>"

definition roundBaseAmount :: "rat \<Rightarrow> string \<Rightarrow> rat" where
  "roundBaseAmount raw baseCurrency =
     (if baseCurrency = ''JPY'' then of_int (mathRound raw)
      else of_int (mathRound (raw * 100)) / 100)"

subsection \<open>Trip form\<close>

text \<open>\<open>new Set(xs)\<close> and \<open>set.add(x)\<close>, in insertion order.\<close>

fun setAdd :: "string \<Rightarrow> string list \<Rightarrow> string list" where
  "setAdd x s = (if x \<in> set s then s else s @ [x])"

definition newSet :: "string list \<Rightarrow> string list" where
  "newSet xs = foldl (\<lambda>s x. setAdd x s) [] xs"

definition parseCurrencies :: "string \<Rightarrow> string \<Rightarrow> string list" where
  "parseCurrencies input baseCurrency =
     filter truthy
       (setAdd (toUpperCase (trim (orStr baseCurrency [])))
          (newSet (filter truthy (map (\<lambda>v. toUpperCase (trim v)) (split CHR '','' input)))))"

definition validateTripForm :: "trip \<Rightarrow> string option" where
  "validateTripForm payload =
     (if t_name payload = [] \<or> length (t_name payload) > 50
        then Some ''Trip name is required (1-50 chars).''
      else if t_startDate payload = [] \<or> t_endDate payload = []
        then Some ''Start and end date are required.''
      else if t_startDate payload > t_endDate payload
        then Some ''Start date must be before or equal to end date.''
      else if t_baseCurrency payload = []
        then Some ''Base currency is required.''
      else if t_baseCurrency payload \<notin> set (t_currencies payload)
        then Some ''Currencies must include base currency.''
      else if t_budgetEnabled payload \<and> \<not> (t_budgetAmountBase payload > 0)
        then Some ''Budget amount is required when budget is enabled.''
      else None)"

definition collectTripFormData :: "appState \<Rightarrow> tripForm \<Rightarrow> host \<Rightarrow> trip" where
  "collectTripFormData st form h =
     (let baseCurrency = toUpperCase (trim (tripBaseCurrency form));
          currencies = parseCurrencies (tripCurrencies form) baseCurrency
      in \<lparr>t_id = (if isSet (st_editingTripId st) then the (st_editingTripId st) else h_uid h),
          t_name = trim (tripName form),
          t_startDate = tripStartDate form,
          t_endDate = tripEndDate form,
          t_baseCurrency = baseCurrency,
          t_currencies = currencies,
          t_budgetEnabled = tripBudgetEnabled form,
          t_budgetAmountBase = (if tripBudgetEnabled form then tripBudgetAmount form else 0),
          t_dailyBudgetAmountBase = tripDailyBudgetAmount form,
          t_createdAt = h_now h\<rparr>)"

text \<open>
  \<open>handleTripSubmit\<close>, up to and including the write: the status message shown and the
  store afterwards. The reload of the caches and the re-rendering that follow a
  successful write are not modelled.
\<close>

definition handleTripSubmit :: "appState \<Rightarrow> tripForm \<Rightarrow> host \<Rightarrow> db \<Rightarrow> string \<times> db" where
  "handleTripSubmit st form h d =
     (let wasEditing = isSet (st_editingTripId st);
          newTrip = collectTripFormData st form h
      in case validateTripForm newTrip of
           Some validation \<Rightarrow> (validation, d)
         | None \<Rightarrow>
            (if isSet (st_editingTripId st) then
               (let old = getTripById (the (st_editingTripId st)) d
                in if (case old of
                         None \<Rightarrow> False
                       | Some oldTrip \<Rightarrow>
                           t_baseCurrency oldTrip \<noteq> t_baseCurrency newTrip \<and>
                           length (getExpensesByTrip (t_id oldTrip) d) > 0)
                   then (''Base currency cannot be changed once expenses exist for this trip in v1.'', d)
                   else
                     (let newTrip' = newTrip\<lparr>t_createdAt :=
                            (case old of
                               None \<Rightarrow> t_createdAt newTrip
                             | Some oldTrip \<Rightarrow> orNum (t_createdAt oldTrip) (t_createdAt newTrip))\<rparr>
                      in (if wasEditing then ''Trip updated.'' else ''Trip created.'',
                          upsertTrip newTrip' d)))
             else (if wasEditing then ''Trip updated.'' else ''Trip created.'',
                   upsertTrip newTrip d)))"

subsection \<open>Expense form\<close>

text \<open>The source's parameter \<open>exp\<close> is \<open>exp0\<close> here: \<open>exp\<close> is the exponential function.\<close>

definition validateExpense :: "expense \<Rightarrow> trip \<Rightarrow> string option" where
  "validateExpense exp0 trip =
     (if \<not> (e_amountOriginal exp0 > 0) then Some ''Amount must be greater than 0.''
      else if e_currency exp0 = [] then Some ''Currency is required.''
      else if e_dateTime exp0 = [] then Some ''Date/time is required.''
      else if e_category exp0 = [] then Some ''Category is required.''
      else if e_payment exp0 = [] then Some ''Payment method is required.''
      else if e_currency exp0 \<noteq> t_baseCurrency trip \<and> \<not> (e_fxRateToBase exp0 > 0)
        then Some ''FX rate must be greater than 0 for non-base currency.''
      else if length (orStr (e_note exp0) []) > 120 then Some ''Note must be 120 chars or less.''
      else if length (orStr (e_location exp0) []) > 80
        then Some ''Location must be 80 chars or less.''
      else if length (e_tags exp0) > 10 then Some ''Maximum 10 tags.''
      else None)"

text \<open>
  \<open>collectExpenseFormData\<close> reads \<open>activeTrip()\<close> itself; without an active trip the
  property access on \<open>null\<close> throws.
\<close>

definition collectExpenseFormData :: "appState \<Rightarrow> expenseForm \<Rightarrow> host \<Rightarrow> error + expense" where
  "collectExpenseFormData st form h =
     (case activeTrip st of
        None \<Rightarrow> Inl Thrown
      | Some trip \<Rightarrow>
         (let currency = expCurrency form;
              fxRateToBase = (if currency = t_baseCurrency trip then 1 else expFx form);
              amountOriginal = expAmountOriginal form;
              amountBase = roundBaseAmount (amountOriginal * fxRateToBase) (t_baseCurrency trip);
              tags = map (take 24)
                       (take 10 (filter truthy (map trim (split CHR '','' (expTags form)))))
          in Inr \<lparr>e_id = (if isSet (st_editingExpenseId st)
                          then the (st_editingExpenseId st) else h_uid h),
                  e_tripId = t_id trip,
                  e_dateTime = orStr (expDateTime form) (h_nowLocal h),
                  e_amountOriginal = amountOriginal,
                  e_currency = currency,
                  e_fxRateToBase = fxRateToBase,
                  e_amountBase = amountBase,
                  e_category = expCategory form,
                  e_payment = expPayment form,
                  e_note = trim (expNote form),
                  e_paidBy = expPaidBy form,
                  e_location = trim (expLocation form),
                  e_tags = tags,
                  e_createdAt = h_now h,
                  e_updatedAt = h_now h\<rparr>))"

text \<open>
  \<open>handleExpenseSubmit\<close>, up to and including the write. \<open>Inl\<close> is an exception that
  leaves the handler; \<open>Inr (msg, d)\<close> is the status message shown and the store afterwards.
\<close>

definition handleExpenseSubmit ::
    "appState \<Rightarrow> expenseForm \<Rightarrow> host \<Rightarrow> db \<Rightarrow> error + string \<times> db" where
  "handleExpenseSubmit st form h d =
     (case activeTrip st of
        None \<Rightarrow> Inr (''Create/select a trip first.'', d)
      | Some trip \<Rightarrow>
         (let wasEditing = isSet (st_editingExpenseId st)
          in case collectExpenseFormData st form h of
               Inl e \<Rightarrow> Inl e
             | Inr exp0 \<Rightarrow>
                (case validateExpense exp0 trip of
                   Some validation \<Rightarrow> Inr (validation, d)
                 | None \<Rightarrow>
                    (let exp1 =
                       (if isSet (st_editingExpenseId st) then
                          (case getExpenseById (the (st_editingExpenseId st)) d of
                             None \<Rightarrow> exp0
                           | Some existing \<Rightarrow>
                               exp0\<lparr>e_createdAt := orNum (e_createdAt existing) (e_createdAt exp0)\<rparr>)
                        else exp0)
                     in Inr (if wasEditing then ''Expense updated.'' else ''Expense added.'',
                             upsertExpense exp1 d)))))"

subsection \<open>Settings form\<close>

definition parseLines :: "string \<Rightarrow> string list" where
  "parseLines v = filter truthy (map trim (split CHR 0x0A v))"

text \<open>The submit handler of \<open>settingsForm\<close>, up to and including the write.\<close>

definition settingsSubmit :: "string \<Rightarrow> string \<Rightarrow> db \<Rightarrow> string \<times> db" where
  "settingsSubmit settingsCategories settingsPayments d =
     (let categories = parseLines settingsCategories;
          payments = parseLines settingsPayments
      in if categories = [] \<or> payments = []
         then (''Categories and payment methods must not be empty.'', d)
         else (''Config lists updated.'', saveSettings categories payments d))"

subsection \<open>Restore\<close>

text \<open>
  \<open>payload.trips || []\<close> followed by \<open>for (... of ...)\<close>: a falsy value counts as the
  empty array, an array is iterated, and any other value makes the loop or the \<open>put\<close>
  throw.
\<close>

definition iterable :: "'a jsfield \<Rightarrow> error + 'a list" where
  "iterable f =
     (case f of
        Undefined \<Rightarrow> Inr []
      | Other b \<Rightarrow> (if b then Inl Thrown else Inr [])
      | Arr xs \<Rightarrow> Inr xs)"

text \<open>
  \<open>restoreBackup\<close>: clear the four stores, write the schema marker and the two settings
  rows, then put every trip and every expense. On \<open>Inl\<close> the handler threw; the model
  does not say what the store holds then.
\<close>

definition restoreBackup :: "payload \<Rightarrow> db \<Rightarrow> error + db" where
  "restoreBackup p d =
     (let meta1 = store_put m_key
            \<lparr>m_key = ''schemaVersion'',
             m_value = (case p_schemaVersion p of
                          None \<Rightarrow> SCHEMA_VERSION
                        | Some v \<Rightarrow> orStr v SCHEMA_VERSION)\<rparr> [];
          categories = (case p_config p of
                          None \<Rightarrow> DEFAULT_categories
                        | Some c \<Rightarrow> (case c_categories c of
                                       None \<Rightarrow> DEFAULT_categories
                                     | Some xs \<Rightarrow> xs));
          payments = (case p_config p of
                        None \<Rightarrow> DEFAULT_paymentMethods
                      | Some c \<Rightarrow> (case c_paymentMethods c of
                                     None \<Rightarrow> DEFAULT_paymentMethods
                                   | Some xs \<Rightarrow> xs));
          settings1 = store_put s_key \<lparr>s_key = ''paymentMethods'', s_value = payments\<rparr>
                        (store_put s_key \<lparr>s_key = ''categories'', s_value = categories\<rparr> [])
      in case iterable (p_trips p) of
           Inl e \<Rightarrow> Inl e
         | Inr ts \<Rightarrow>
            (case iterable (p_expenses p) of
               Inl e \<Rightarrow> Inl e
             | Inr es \<Rightarrow>
                Inr \<lparr>meta = meta1, settings = settings1,
                     trips = foldl (\<lambda>s t. store_put t_id t s) [] ts,
                     expenses = foldl (\<lambda>s e. store_put e_id e s) [] es\<rparr>))"

text \<open>What the file input and \<open>parseRestoreFile\<close> deliver.\<close>

datatype fileRead = NoFile | ReadFailed | InvalidJson | Parsed payload

definition isArray :: "'a jsfield \<Rightarrow> bool" where
  "isArray f = (case f of Arr xs \<Rightarrow> True | _ \<Rightarrow> False)"

definition handleRestoreFileChange :: "fileRead \<Rightarrow> appState \<Rightarrow> string option \<times> appState" where
  "handleRestoreFileChange file st =
     (let st0 = st\<lparr>st_pendingRestore := None\<rparr>
      in case file of
           NoFile \<Rightarrow> (None, st0)
         | ReadFailed \<Rightarrow> (Some ''Failed to read file.'', st0)
         | InvalidJson \<Rightarrow> (Some ''Invalid JSON file.'', st0)
         | Parsed p \<Rightarrow>
            (if \<not> isArray (p_trips p) \<or> \<not> isArray (p_expenses p)
             then (Some ''Backup must contain trips and expenses arrays.'', st0)
             else (Some ''Backup file loaded. Review summary and confirm restore.'',
                   st0\<lparr>st_pendingRestore := Some p\<rparr>)))"

text \<open>\<open>applyRestore\<close>; \<open>ok\<close> is the answer to \<open>window.confirm\<close>.\<close>

definition applyRestore ::
    "bool \<Rightarrow> appState \<Rightarrow> db \<Rightarrow> error + string option \<times> appState \<times> db" where
  "applyRestore ok st d =
     (case st_pendingRestore st of
        None \<Rightarrow> Inr (Some ''Select a valid backup file first.'', st, d)
      | Some p \<Rightarrow>
         (if \<not> ok then Inr (None, st, d)
          else (case restoreBackup p d of
                  Inl e \<Rightarrow> Inl e
                | Inr d' \<Rightarrow> Inr (Some ''Restore completed.'', st\<lparr>st_pendingRestore := None\<rparr>, d'))))"

subsection \<open>Aggregation\<close>

definition filteredExpenses :: "appState \<Rightarrow> expense list" where
  "filteredExpenses st =
     (let fl = st_filters st;
          search = toLowerCase (trim (f_search fl))
      in filter (\<lambda>exp0.
           if f_startDate fl \<noteq> [] \<and> take 10 (e_dateTime exp0) < f_startDate fl then False
           else if f_endDate fl \<noteq> [] \<and> take 10 (e_dateTime exp0) > f_endDate fl then False
           else if f_category fl \<noteq> ''All'' \<and> e_category exp0 \<noteq> f_category fl then False
           else if f_payment fl \<noteq> ''All'' \<and> e_payment exp0 \<noteq> f_payment fl then False
           else if search \<noteq> [] then
             (let bag = toLowerCase
                          (join '' '' ([orStr (e_note exp0) [], orStr (e_location exp0) []]
                                       @ e_tags exp0))
              in if \<not> includesStr bag search then False else True)
           else True) (st_expenses st))"

text \<open>
  A JavaScript \<open>Map\<close> from strings to numbers: the entries in insertion order.
  \<open>mapGet0\<close> is \<open>map.get(k) || 0\<close>.
\<close>

type_synonym jsmap = "(string \<times> rat) list"

definition mapGet0 :: "jsmap \<Rightarrow> string \<Rightarrow> rat" where
  "mapGet0 m k = (case map_of m k of None \<Rightarrow> 0 | Some v \<Rightarrow> orNum v 0)"

fun mapSet :: "string \<Rightarrow> rat \<Rightarrow> jsmap \<Rightarrow> jsmap" where
  "mapSet k v [] = [(k, v)]"
| "mapSet k v ((k', v') # m) = (if k' = k then (k, v) # m else (k', v') # mapSet k v m)"

text \<open>
  \<open>aggregateBy(items, key)\<close>; \<open>key\<close> is the property read, \<open>e_category\<close> or \<open>e_payment\<close>.
  The comparator of the final sort is \<open>b[1] - a[1]\<close>: descending totals.
\<close>

definition aggregateBy :: "expense list \<Rightarrow> (expense \<Rightarrow> string) \<Rightarrow> jsmap" where
  "aggregateBy items key =
     jsSort (\<lambda>a b. snd b - snd a > 0)
       (foldl (\<lambda>m item.
                 let k = orStr (key item) ''Unknown''
                 in mapSet k (mapGet0 m k + orNum (e_amountBase item) 0) m) [] items)"

definition aggregateByDay :: "expense list \<Rightarrow> jsmap" where
  "aggregateByDay items =
     jsSort (\<lambda>a b. \<not> fst a < fst b)
       (foldl (\<lambda>m item.
                 let day = take 10 (e_dateTime item)
                 in mapSet day (mapGet0 m day + orNum (e_amountBase item) 0) m) [] items)"

subsection \<open>Dashboard\<close>

record budgetPanel =
  b_remaining :: rat
  b_daysElapsed :: int
  b_avgPerDay :: rat

record dashboard =
  d_total :: rat
  d_byCategory :: jsmap
  d_byPayment :: jsmap
  d_byDay :: jsmap
  d_budget :: "budgetPanel option"

text \<open>
  The numbers \<open>renderDashboard\<close> computes. \<open>parseDate s\<close> is the time value of
  \<open>new Date(s)\<close> in the host's time zone and \<open>now\<close> that of \<open>new Date()\<close>, both in
  milliseconds; an invalid date is outside the model. The result is \<open>None\<close> without an
  active trip, and the budget panel is \<open>None\<close> when the budget is disabled.
\<close>

definition renderDashboard :: "(string \<Rightarrow> int) \<Rightarrow> int \<Rightarrow> appState \<Rightarrow> dashboard option" where
  "renderDashboard parseDate now st =
     (case activeTrip st of
        None \<Rightarrow> None
      | Some trip \<Rightarrow>
         (let items = filteredExpenses st;
              total = foldl (\<lambda>sum x. sum + orNum (e_amountBase x) 0) 0 items;
              byCategory = aggregateBy items e_category;
              byPayment = aggregateBy items e_payment;
              byDay = aggregateByDay items
          in Some \<lparr>d_total = total, d_byCategory = byCategory, d_byPayment = byPayment,
                   d_byDay = byDay,
                   d_budget =
                     (if t_budgetEnabled trip then
                        (let remaining = orNum (t_budgetAmountBase trip) 0 - total;
                             tripStart = parseDate (t_startDate trip @ ''T00:00'');
                             tripEnd = parseDate (t_endDate trip @ ''T23:59'');
                             endForElapsed = (if now < tripEnd then now else tripEnd);
                             elapsedMs = max (endForElapsed - tripStart) 0;
                             daysElapsed =
                               max (\<lfloor>(of_int elapsedMs :: rat) / (1000 * 60 * 60 * 24)\<rfloor> + 1) 1;
                             avgPerDay = total / of_int daysElapsed
                         in Some \<lparr>b_remaining = remaining, b_daysElapsed = daysElapsed,
                                  b_avgPerDay = avgPerDay\<rparr>)
                      else None)\<rparr>))"

subsection \<open>Reference definitions for the rounding and burn-rate rules\<close>

text \<open>
  The three definitions of this subsection follow the wording of the specification,
  not the source. The theorems on conversion and on the burn rate compare what the
  source computes with them.
\<close>

text \<open>
  The number of decimals of a currency, as the rounding rule names it; \<open>moneyFormat\<close>
  of the source computes the same number as \<open>decimals\<close>.
\<close>

definition decimalsFor :: "string \<Rightarrow> nat" where
  "decimalsFor currency = (if currency = ''JPY'' then 0 else 2)"


text \<open>
  Elapsed days as the burn-rate rule words them: the whole days from the trip's start
  to the earlier of now and the trip's end, plus one, and at least one.
\<close>

definition daysElapsedRule :: "int \<Rightarrow> int \<Rightarrow> int \<Rightarrow> int" where
  "daysElapsedRule now tripStart tripEnd =
     max 1 (\<lfloor>(of_int (min now tripEnd - tripStart) :: rat) / 86400000\<rfloor> + 1)"

subsection \<open>Sample data\<close>

definition ex_trip :: trip where
  "ex_trip =
     \<lparr>t_id = ''t1'', t_name = ''Tokyo'', t_startDate = ''2024-01-01'',
      t_endDate = ''2024-01-03'', t_baseCurrency = ''JPY'', t_currencies = [''JPY'', ''USD''],
      t_budgetEnabled = True, t_budgetAmountBase = 100000, t_dailyBudgetAmountBase = None,
      t_createdAt = 1\<rparr>"

definition ex_expense :: expense where
  "ex_expense =
     \<lparr>e_id = ''e1'', e_tripId = ''t1'', e_dateTime = ''2024-01-02T10:00'',
      e_amountOriginal = 50, e_currency = ''USD'', e_fxRateToBase = 150, e_amountBase = 7500,
      e_category = ''Food & drinks'', e_payment = ''Cash'', e_note = [], e_paidBy = ''Me'',
      e_location = [], e_tags = [], e_createdAt = 2, e_updatedAt = 2\<rparr>"

text \<open>Two trips, three expenses, an edited category list and no payment-method record.\<close>

definition ex_db :: db where
  "ex_db =
     \<lparr>meta = [\<lparr>m_key = ''schemaVersion'', m_value = ''0.9.0''\<rparr>],
      settings = [\<lparr>s_key = ''categories'', s_value = [''Food'']\<rparr>],
      trips = [ex_trip, ex_trip\<lparr>t_id := ''t2''\<rparr>],
      expenses = [ex_expense, ex_expense\<lparr>e_id := ''e2'', e_tripId := ''t2''\<rparr>,
                  ex_expense\<lparr>e_id := ''e3''\<rparr>]\<rparr>"

text \<open>
  The state after the trip \<open>ex_trip\<close> was made active and its date range copied into
  the filters; a store that holds this trip and no expense yet.
\<close>

definition ex_state :: appState where
  "ex_state =
     \<lparr>st_trips = [ex_trip], st_activeTripId = ''t1'', st_expenses = [],
      st_filters = \<lparr>f_startDate = ''2024-01-01'', f_endDate = ''2024-01-03'',
                    f_category = ''All'', f_payment = ''All'', f_search = []\<rparr>,
      st_editingTripId = None, st_editingExpenseId = None, st_pendingRestore = None\<rparr>"

definition ex_host :: host where
  "ex_host = \<lparr>h_uid = ''exp_k3x9'', h_now = 1704186000000, h_nowLocal = ''2024-01-02T10:00''\<rparr>"

definition scenario_db :: db where
  "scenario_db =
     \<lparr>meta = [\<lparr>m_key = ''schemaVersion'', m_value = ''1.0.0''\<rparr>],
      settings = [], trips = [ex_trip], expenses = []\<rparr>"

text \<open>The expense form filled in with 50 USD at the rate 150.\<close>

definition ex_form :: expenseForm where
  "ex_form =
     \<lparr>expDateTime = ''2024-01-02T10:00'', expAmountOriginal = 50, expCurrency = ''USD'',
      expFx = 150, expCategory = ''Food & drinks'', expPayment = ''Cash'', expNote = [],
      expPaidBy = ''Me'', expLocation = [], expTags = []\<rparr>"

definition scenario_expense :: expense where
  "scenario_expense =
     \<lparr>e_id = ''exp_k3x9'', e_tripId = ''t1'', e_dateTime = ''2024-01-02T10:00'',
      e_amountOriginal = 50, e_currency = ''USD'', e_fxRateToBase = 150, e_amountBase = 7500,
      e_category = ''Food & drinks'', e_payment = ''Cash'', e_note = [], e_paidBy = ''Me'',
      e_location = [], e_tags = [], e_createdAt = 1704186000000,
      e_updatedAt = 1704186000000\<rparr>"



text \<open>Twelve tags, the second of them 30 characters long.\<close>

definition ex_formTags :: expenseForm where
  "ex_formTags =
     ex_form\<lparr>expTags := ''a, bbbbbbbbbbbbbbbbbbbbbbbbbbbbbb, c, d, e, f, g, h, i, j, k, l''\<rparr>"

text \<open>The trip form while editing \<open>ex_trip\<close>, with another base currency typed in.\<close>

definition ex_tripForm :: tripForm where
  "ex_tripForm =
     \<lparr>tripName = ''Tokyo'', tripStartDate = ''2024-01-01'', tripEndDate = ''2024-01-03'',
      tripBaseCurrency = ''usd '', tripCurrencies = ''jpy, usd'', tripBudgetEnabled = True,
      tripBudgetAmount = 100000, tripDailyBudgetAmount = None\<rparr>"

text \<open>Three cached expenses of \<open>ex_trip\<close>: two categories, two payment methods, two days.\<close>

definition ex_stateThree :: appState where
  "ex_stateThree =
     ex_state\<lparr>st_expenses :=
       [ex_expense,
        ex_expense\<lparr>e_id := ''e2'', e_amountOriginal := 1200, e_currency := ''JPY'',
                    e_fxRateToBase := 1, e_amountBase := 1200, e_category := ''Lodging'',
                    e_dateTime := ''2024-01-03T09:00''\<rparr>,
        ex_expense\<lparr>e_id := ''e3'', e_amountOriginal := 2, e_amountBase := 300,
                    e_payment := ''Wise''\<rparr>]\<rparr>"

text \<open>A host clock: \<open>2024-01-01T00:00\<close> is instant 0, \<open>2024-01-03T23:59\<close> three days less a minute later.\<close>

definition ex_parseDate :: "string \<Rightarrow> int" where
  "ex_parseDate s = (if s = ''2024-01-01T00:00'' then 0 else 3 * 86400000 - 60000)"

section \<open>Properties\<close>

subsection \<open>Object store lemmas\<close>

lemma store_get_put:
  "store_get keyOf k (store_put keyOf r rs) =
     (if keyOf r = k then Some r else store_get keyOf k rs)"
  by (induction rs) (auto simp: store_get_def)

lemma store_get_delete_same: "store_get keyOf k (store_delete keyOf k rs) = None"
  by (simp add: store_get_def store_delete_def find_None_iff)

lemma deleteCursor_none_left:
  "deleteCursor flt n tripId es = Inr es' \<Longrightarrow>
     set es' \<subseteq> set es \<and> (\<forall>e\<in>set es'. e_tripId e \<noteq> tripId)"
proof (induction flt n tripId es rule: deleteCursor.induct)
  case (1 flt n tripId es)
  show ?case
  proof (cases "find (\<lambda>e. e_tripId e = tripId) es")
    case None
    then have "\<forall>e\<in>set es. e_tripId e \<noteq> tripId"
      by (simp add: find_None_iff)
    moreover from None "1.prems" have "es' = es"
      by (simp add: deleteCursor.simps[of flt n tripId es] split: if_splits)
    ultimately show ?thesis
      by simp
  next
    case (Some cursor)
    with "1.prems" have ne: "flt \<noteq> Some n"
      and rec: "deleteCursor flt (Suc n) tripId (store_delete e_id (e_id cursor) es) = Inr es'"
      by (auto simp: deleteCursor.simps[of flt n tripId es] split: if_splits)
    from "1.IH"[OF ne Some rec]
    have "set es' \<subseteq> set (store_delete e_id (e_id cursor) es)"
      and "\<forall>e\<in>set es'. e_tripId e \<noteq> tripId"
      by simp_all
    then show ?thesis
      by (auto simp: store_delete_def)
  qed
qed

lemma deleteCursor_distinct:
  "deleteCursor flt n tripId es = Inr es' \<Longrightarrow> distinct (map e_id es) \<Longrightarrow>
     es' = filter (\<lambda>e. e_tripId e \<noteq> tripId) es"
proof (induction flt n tripId es rule: deleteCursor.induct)
  case (1 flt n tripId es)
  show ?case
  proof (cases "find (\<lambda>e. e_tripId e = tripId) es")
    case None
    then have "\<forall>e\<in>set es. e_tripId e \<noteq> tripId"
      by (simp add: find_None_iff)
    moreover from None "1.prems" have "es' = es"
      by (simp add: deleteCursor.simps[of flt n tripId es] split: if_splits)
    ultimately show ?thesis
      by simp
  next
    case (Some cursor)
    with "1.prems" have ne: "flt \<noteq> Some n"
      and rec: "deleteCursor flt (Suc n) tripId (store_delete e_id (e_id cursor) es) = Inr es'"
      by (auto simp: deleteCursor.simps[of flt n tripId es] split: if_splits)
    from Some have c: "e_tripId cursor = tripId" "cursor \<in> set es"
      by (auto simp: find_Some_iff)
    have d: "distinct (map e_id (store_delete e_id (e_id cursor) es))"
      using "1.prems"(2) by (simp add: store_delete_def distinct_map_filter)
    have same: "\<And>x. x \<in> set es \<Longrightarrow> e_id x = e_id cursor \<Longrightarrow> x = cursor"
      using "1.prems"(2) c(2) by (meson distinct_map inj_onD)
    from "1.IH"[OF ne Some rec d]
    have "es' = filter (\<lambda>e. e_tripId e \<noteq> tripId) (filter (\<lambda>r. e_id r \<noteq> e_id cursor) es)"
      by (simp add: store_delete_def)
    also have "\<dots> = filter (\<lambda>e. e_tripId e \<noteq> tripId) es"
      unfolding filter_filter using c(1) same by (intro filter_cong) auto
    finally show ?thesis .
  qed
qed

lemma deleteCursor_no_fault:
  "\<exists>es'. deleteCursor None n tripId es = Inr es'"
proof (induction "None :: nat option" n tripId es rule: deleteCursor.induct)
  case (1 n tripId es)
  then show ?case
    by (cases "find (\<lambda>e. e_tripId e = tripId) es")
       (auto simp: deleteCursor.simps[of None n tripId es])
qed


subsection \<open>Cascade delete\<close>

lemma deleteTripCascade_success:
  "\<exists>d'. deleteTripCascade None tripId d = (Inr (), d')"
proof -
  obtain es' where "deleteCursor None 1 tripId (expenses d) = Inr es'"
    using deleteCursor_no_fault by blast
  then show ?thesis
    by (simp add: deleteTripCascade_def runTx_def)
qed

lemma deleteTripCascade_frame:
  assumes "deleteTripCascade flt tripId d = (Inr u, d')"
    and "distinct (map e_id (expenses d))"
  shows "trips d' = filter (\<lambda>t. t_id t \<noteq> tripId) (trips d)"
    and "expenses d' = filter (\<lambda>e. e_tripId e \<noteq> tripId) (expenses d)"
    and "meta d' = meta d" and "settings d' = settings d"
  using assms deleteCursor_distinct[of flt 1 tripId "expenses d"]
  by (auto simp: deleteTripCascade_def runTx_def Let_def store_delete_def
           split: if_splits sum.splits)

text \<open>
  C1. Whatever request of the transaction fails, if any: when \<open>deleteTripCascade\<close>
  succeeds, the store holds no trip with the given id and no expense whose \<open>tripId\<close> is
  that id; when it fails, the store is the one before the call, so the trip and its
  expenses are all still there. Without a failure it succeeds.
\<close>

theorem deleteTripCascade_atomic:
  "(flt = None \<longrightarrow> fst (deleteTripCascade flt tripId d) = Inr ()) \<and>
   (case deleteTripCascade flt tripId d of
      (Inr u, d') \<Rightarrow> getTripById tripId d' = None \<and> getExpensesByTrip tripId d' = []
    | (Inl e, d') \<Rightarrow> d' = d)"
proof (intro conjI impI)
  assume "flt = None"
  then show "fst (deleteTripCascade flt tripId d) = Inr ()"
    using deleteTripCascade_success[of tripId d] by auto
next
  show "case deleteTripCascade flt tripId d of
          (Inr u, d') \<Rightarrow> getTripById tripId d' = None \<and> getExpensesByTrip tripId d' = []
        | (Inl e, d') \<Rightarrow> d' = d"
  proof (cases "flt = Some 0")
    case True
    then show ?thesis
      by (simp add: deleteTripCascade_def runTx_def)
  next
    case False
    show ?thesis
    proof (cases "deleteCursor flt 1 tripId (expenses d)")
      case (Inl e)
      with False show ?thesis
        by (simp add: deleteTripCascade_def runTx_def)
    next
      case (Inr es')
      then have "\<forall>e\<in>set es'. e_tripId e \<noteq> tripId"
        using deleteCursor_none_left by blast
      then have "filter (\<lambda>e. e_tripId e = tripId) es' = []"
        by (simp add: filter_empty_conv)
      with False Inr show ?thesis
        by (simp add: deleteTripCascade_def runTx_def getTripById_def getExpensesByTrip_def
              store_get_delete_same)
    qed
  qed
qed

theorem deleteTripCascade_atomic_witness:
  "fst (deleteTripCascade None ''t1'' ex_db) = Inr () \<and>
   getTripById ''t1'' ex_db \<noteq> None \<and>
   getExpensesByTrip ''t1'' ex_db \<noteq> [] \<and>
   getTripById ''t1'' (snd (deleteTripCascade None ''t1'' ex_db)) = None \<and>
   getExpensesByTrip ''t1'' (snd (deleteTripCascade None ''t1'' ex_db)) = [] \<and>
   deleteTripCascade (Some 2) ''t1'' ex_db = (Inl RequestFailed, ex_db)"
proof -
  have ok: "fst (deleteTripCascade None ''t1'' ex_db) = Inr ()"
    using deleteTripCascade_atomic[of None "''t1''" ex_db] by simp
  have before: "getTripById ''t1'' ex_db \<noteq> None \<and> getExpensesByTrip ''t1'' ex_db \<noteq> []"
    by (simp add: getTripById_def getExpensesByTrip_def store_get_def ex_db_def ex_trip_def
          ex_expense_def)
  have after: "getTripById ''t1'' (snd (deleteTripCascade None ''t1'' ex_db)) = None \<and>
      getExpensesByTrip ''t1'' (snd (deleteTripCascade None ''t1'' ex_db)) = []"
    using deleteTripCascade_atomic[of None "''t1''" ex_db] ok
    by (cases "deleteTripCascade None ''t1'' ex_db") auto
  have failing: "fst (deleteTripCascade (Some 2) ''t1'' ex_db) = Inl RequestFailed"
    by (simp add: deleteTripCascade_def runTx_def deleteCursor.simps store_delete_def
          ex_db_def ex_trip_def ex_expense_def)
  have "deleteTripCascade (Some 2) ''t1'' ex_db = (Inl RequestFailed, ex_db)"
    using deleteTripCascade_atomic[of "Some 2" "''t1''" ex_db] failing
    by (cases "deleteTripCascade (Some 2) ''t1'' ex_db") auto
  with ok before after show ?thesis by simp
qed

subsection \<open>Bootstrap\<close>

lemma initializeDb_present:
  "store_get m_key ''schemaVersion'' (meta (initializeDb d)) \<noteq> None"
  "store_get s_key ''categories'' (settings (initializeDb d)) \<noteq> None"
  "store_get s_key ''paymentMethods'' (settings (initializeDb d)) \<noteq> None"
  by (auto simp: initializeDb_def Let_def store_get_put split: option.splits)

lemma initializeDb_fixed:
  "store_get m_key ''schemaVersion'' (meta d) \<noteq> None \<Longrightarrow>
   store_get s_key ''categories'' (settings d) \<noteq> None \<Longrightarrow>
   store_get s_key ''paymentMethods'' (settings d) \<noteq> None \<Longrightarrow>
   initializeDb d = d"
  by (auto simp: initializeDb_def Let_def)

lemma initializeDb_keeps:
  "store_get m_key ''schemaVersion'' (meta d) = Some mrow \<Longrightarrow>
     meta (initializeDb d) = meta d"
  "store_get s_key ''categories'' (settings d) = Some srow \<Longrightarrow>
     store_get s_key ''categories'' (settings (initializeDb d)) = Some srow"
  "store_get s_key ''paymentMethods'' (settings d) = Some srow \<Longrightarrow>
     store_get s_key ''paymentMethods'' (settings (initializeDb d)) = Some srow"
  by (auto simp: initializeDb_def Let_def store_get_put split: option.splits)

text \<open>
  C5. \<open>initializeDb\<close> is idempotent, and a record that exists under
  \<open>schemaVersion\<close>, \<open>categories\<close> or \<open>paymentMethods\<close> is the same record afterwards,
  whether or not the records under the other two keys exist. Trips and expenses are
  not touched.
\<close>

theorem initializeDb_idempotent:
  "initializeDb (initializeDb d) = initializeDb d \<and>
   (\<forall>row. store_get m_key ''schemaVersion'' (meta d) = Some row \<longrightarrow>
       store_get m_key ''schemaVersion'' (meta (initializeDb d)) = Some row) \<and>
   (\<forall>row. store_get s_key ''categories'' (settings d) = Some row \<longrightarrow>
       store_get s_key ''categories'' (settings (initializeDb d)) = Some row) \<and>
   (\<forall>row. store_get s_key ''paymentMethods'' (settings d) = Some row \<longrightarrow>
       store_get s_key ''paymentMethods'' (settings (initializeDb d)) = Some row) \<and>
   trips (initializeDb d) = trips d \<and> expenses (initializeDb d) = expenses d"
proof (intro conjI allI impI)
  show "initializeDb (initializeDb d) = initializeDb d"
    by (rule initializeDb_fixed) (rule initializeDb_present)+
next
  fix row assume "store_get m_key ''schemaVersion'' (meta d) = Some row"
  then show "store_get m_key ''schemaVersion'' (meta (initializeDb d)) = Some row"
    by (simp add: initializeDb_keeps(1))
next
  fix row assume "store_get s_key ''categories'' (settings d) = Some row"
  then show "store_get s_key ''categories'' (settings (initializeDb d)) = Some row"
    by (rule initializeDb_keeps(2))
next
  fix row assume "store_get s_key ''paymentMethods'' (settings d) = Some row"
  then show "store_get s_key ''paymentMethods'' (settings (initializeDb d)) = Some row"
    by (rule initializeDb_keeps(3))
next
  show "trips (initializeDb d) = trips d"
    by (simp add: initializeDb_def Let_def split: option.splits)
next
  show "expenses (initializeDb d) = expenses d"
    by (simp add: initializeDb_def Let_def split: option.splits)
qed

theorem initializeDb_idempotent_witness:
  "store_get s_key ''categories'' (settings ex_db) =
     Some \<lparr>s_key = ''categories'', s_value = [''Food'']\<rparr> \<and>
   store_get s_key ''paymentMethods'' (settings ex_db) = None \<and>
   store_get s_key ''categories'' (settings (initializeDb ex_db)) =
     Some \<lparr>s_key = ''categories'', s_value = [''Food'']\<rparr> \<and>
   store_get m_key ''schemaVersion'' (meta (initializeDb ex_db)) =
     Some \<lparr>m_key = ''schemaVersion'', m_value = ''0.9.0''\<rparr> \<and>
   initializeDb (initializeDb ex_db) = initializeDb ex_db"
  using initializeDb_idempotent[of ex_db]
  by (simp add: ex_db_def store_get_def)

subsection \<open>Settings update\<close>

text \<open>
  C6. When the category list or the payment-method list that the settings form submits
  is empty, the handler reports the error and returns before \<open>saveSettings\<close>: the store
  is the one before the call, so both stored lists are what they were.
\<close>

theorem settingsSubmit_empty_rejected:
  "parseLines settingsCategories = [] \<or> parseLines settingsPayments = [] \<Longrightarrow>
     settingsSubmit settingsCategories settingsPayments d =
       (''Categories and payment methods must not be empty.'', d)"
  by (auto simp: settingsSubmit_def Let_def)

theorem settingsSubmit_empty_rejected_witness:
  "parseLines [CHR '' '', CHR 0x0A, CHR 0x09] = [] \<and>
   settingsSubmit ''Food'' [CHR '' '', CHR 0x0A, CHR 0x09] ex_db =
     (''Categories and payment methods must not be empty.'', ex_db) \<and>
   getSettings (snd (settingsSubmit ''Food'' [CHR '' '', CHR 0x0A, CHR 0x09] ex_db)) =
     ([''Food''], DEFAULT_paymentMethods)"
proof -
  have empty: "parseLines [CHR '' '', CHR 0x0A, CHR 0x09] = []"
    by (simp add: parseLines_def trim_def isWhite_def truthy_def)
  then have "settingsSubmit ''Food'' [CHR '' '', CHR 0x0A, CHR 0x09] ex_db =
      (''Categories and payment methods must not be empty.'', ex_db)"
    using settingsSubmit_empty_rejected[of "''Food''" "[CHR '' '', CHR 0x0A, CHR 0x09]" ex_db]
    by simp
  moreover have "getSettings ex_db = ([''Food''], DEFAULT_paymentMethods)"
    by (simp add: getSettings_def ex_db_def store_get_def)
  ultimately show ?thesis
    using empty by simp
qed

subsection \<open>Trip update\<close>

lemma store_get_key: "store_get keyOf k rs = Some r \<Longrightarrow> keyOf r = k"
  by (auto simp: store_get_def find_Some_iff)

text \<open>
  C7. Editing a trip that has at least one expense: when the base currency the form
  submits differs from the stored one, \<open>handleTripSubmit\<close> leaves the store as it was,
  so the trip and its expenses keep their values. The message shown is the
  base-currency message, or that of the form validation when the form is invalid as
  well.
\<close>

theorem handleTripSubmit_baseCurrency_locked:
  assumes "st_editingTripId st = Some tid" and "tid \<noteq> []"
    and "getTripById tid d = Some old"
    and "getExpensesByTrip tid d \<noteq> []"
    and "toUpperCase (trim (tripBaseCurrency form)) \<noteq> t_baseCurrency old"
  shows "snd (handleTripSubmit st form h d) = d \<and>
         (fst (handleTripSubmit st form h d) =
            ''Base currency cannot be changed once expenses exist for this trip in v1.'' \<or>
          validateTripForm (collectTripFormData st form h) =
            Some (fst (handleTripSubmit st form h d)))"
proof -
  have "t_id old = tid"
    using assms(3) by (simp add: getTripById_def store_get_key)
  moreover have "t_baseCurrency (collectTripFormData st form h) =
      toUpperCase (trim (tripBaseCurrency form))"
    by (simp add: collectTripFormData_def Let_def)
  ultimately show ?thesis
    using assms by (auto simp: handleTripSubmit_def Let_def isSet_def split: option.splits)
qed

theorem handleTripSubmit_baseCurrency_locked_witness:
  "getTripById ''t1'' ex_db = Some ex_trip \<and>
   getExpensesByTrip ''t1'' ex_db \<noteq> [] \<and>
   toUpperCase (trim (tripBaseCurrency ex_tripForm)) = ''USD'' \<and>
   t_baseCurrency ex_trip = ''JPY'' \<and>
   validateTripForm
     (collectTripFormData (ex_state\<lparr>st_editingTripId := Some ''t1''\<rparr>) ex_tripForm ex_host) = None \<and>
   handleTripSubmit (ex_state\<lparr>st_editingTripId := Some ''t1''\<rparr>) ex_tripForm ex_host ex_db =
     (''Base currency cannot be changed once expenses exist for this trip in v1.'', ex_db)"
proof -
  have old: "getTripById ''t1'' ex_db = Some ex_trip"
    by (simp add: getTripById_def store_get_def ex_db_def ex_trip_def)
  have has: "getExpensesByTrip ''t1'' ex_db \<noteq> []"
    by (simp add: getExpensesByTrip_def ex_db_def ex_expense_def)
  have usd: "toUpperCase (trim (tripBaseCurrency ex_tripForm)) = ''USD''"
    by code_simp
  have jpy: "t_baseCurrency ex_trip = ''JPY''"
    by (simp add: ex_trip_def)
  have valid: "validateTripForm
     (collectTripFormData (ex_state\<lparr>st_editingTripId := Some ''t1''\<rparr>) ex_tripForm ex_host) = None"
    by code_simp
  have ed: "st_editingTripId (ex_state\<lparr>st_editingTripId := Some ''t1''\<rparr>) = Some ''t1''"
    by simp
  have ne: "toUpperCase (trim (tripBaseCurrency ex_tripForm)) \<noteq> t_baseCurrency ex_trip"
    by (simp add: usd jpy)
  from handleTripSubmit_baseCurrency_locked[OF ed _ old has ne, of ex_host] valid
  have "handleTripSubmit (ex_state\<lparr>st_editingTripId := Some ''t1''\<rparr>) ex_tripForm ex_host ex_db =
     (''Base currency cannot be changed once expenses exist for this trip in v1.'', ex_db)"
    by (cases "handleTripSubmit (ex_state\<lparr>st_editingTripId := Some ''t1''\<rparr>) ex_tripForm ex_host ex_db")
       auto
  with old has usd jpy valid show ?thesis
    by simp
qed

subsection \<open>Restore\<close>

text \<open>
  The guard on the shape of the payload is in \<open>handleRestoreFileChange\<close>;
  \<open>restoreBackup\<close> itself takes a missing array for an empty one.
\<close>

lemma restoreBackup_missing_arrays:
  "restoreBackup \<lparr>p_schemaVersion = None, p_trips = Undefined, p_expenses = Undefined,
                  p_config = None\<rparr> d =
     Inr \<lparr>meta = [\<lparr>m_key = ''schemaVersion'', m_value = SCHEMA_VERSION\<rparr>],
          settings = [\<lparr>s_key = ''categories'', s_value = DEFAULT_categories\<rparr>,
                      \<lparr>s_key = ''paymentMethods'', s_value = DEFAULT_paymentMethods\<rparr>],
          trips = [], expenses = []\<rparr>"
  by (simp add: restoreBackup_def iterable_def)

text \<open>
  C4. A payload whose \<open>trips\<close> or \<open>expenses\<close> is absent or not an array is refused when
  the file is read, with the validation message, and no restore is left pending; the
  restore button then does nothing to the store, whatever the answer to the
  confirmation would be.
\<close>

theorem restore_rejects_bad_shape:
  assumes "\<not> isArray (p_trips p) \<or> \<not> isArray (p_expenses p)"
  shows "handleRestoreFileChange (Parsed p) st =
           (Some ''Backup must contain trips and expenses arrays.'',
            st\<lparr>st_pendingRestore := None\<rparr>) \<and>
         applyRestore ok (snd (handleRestoreFileChange (Parsed p) st)) d =
           Inr (Some ''Select a valid backup file first.'', st\<lparr>st_pendingRestore := None\<rparr>, d)"
  using assms by (auto simp: handleRestoreFileChange_def applyRestore_def Let_def)

theorem restore_rejects_bad_shape_witness:
  "isArray (Arr [ex_expense]) \<and>
   applyRestore True
     (snd (handleRestoreFileChange
        (Parsed \<lparr>p_schemaVersion = Some ''1.0.0'', p_trips = Other True,
                 p_expenses = Arr [ex_expense], p_config = None\<rparr>)
        (ex_state\<lparr>st_pendingRestore := Some \<lparr>p_schemaVersion = None, p_trips = Arr [],
                 p_expenses = Arr [], p_config = None\<rparr>\<rparr>))) ex_db =
     Inr (Some ''Select a valid backup file first.'', ex_state, ex_db)"
proof -
  let ?p = "\<lparr>p_schemaVersion = Some ''1.0.0'', p_trips = Other True,
             p_expenses = Arr [ex_expense], p_config = None\<rparr>"
  let ?st = "ex_state\<lparr>st_pendingRestore := Some \<lparr>p_schemaVersion = None, p_trips = Arr [],
                 p_expenses = Arr [], p_config = None\<rparr>\<rparr>"
  have bad: "\<not> isArray (p_trips ?p) \<or> \<not> isArray (p_expenses ?p)"
    by (simp add: isArray_def)
  have cleared: "?st\<lparr>st_pendingRestore := None\<rparr> = ex_state"
    by (simp add: ex_state_def)
  have "applyRestore True (snd (handleRestoreFileChange (Parsed ?p) ?st)) ex_db =
      Inr (Some ''Select a valid backup file first.'', ?st\<lparr>st_pendingRestore := None\<rparr>, ex_db)"
    using restore_rejects_bad_shape[OF bad, of ?st True ex_db] by blast
  then show ?thesis
    unfolding cleared by (simp add: isArray_def)
qed

subsection \<open>Expense form\<close>


lemma collect_tags:
  assumes "collectExpenseFormData st form h = Inr e"
  shows "length (e_tags e) \<le> 10" and "\<forall>t\<in>set (e_tags e). length t \<le> 24"
  using assms by (auto simp: collectExpenseFormData_def Let_def split: option.splits)


lemma upsertExpense_stored: "getExpenseById (e_id e) (upsertExpense e d) = Some e"
  by (simp add: getExpenseById_def upsertExpense_def store_get_put)

lemma validateExpense_tags:
  "length (e_tags e) \<le> 10 \<Longrightarrow> validateExpense e trip \<noteq> Some ''Maximum 10 tags.''"
  by (simp add: validateExpense_def)

text \<open>
  What a run of \<open>handleExpenseSubmit\<close> that returns can have done: nothing, with a
  message that is not a success message, or one \<open>put\<close> of the collected expense, whose
  \<open>createdAt\<close> alone may have been replaced.
\<close>

lemma handleExpenseSubmit_cases [consumes 1, case_names no_trip invalid stored]:
  assumes "handleExpenseSubmit st form h d = Inr (msg, d')"
  obtains "d' = d" and "msg = ''Create/select a trip first.''"
  | trip exp0 where "d' = d" and "activeTrip st = Some trip"
      and "collectExpenseFormData st form h = Inr exp0"
      and "validateExpense exp0 trip = Some msg"
  | trip exp0 c where "activeTrip st = Some trip"
      and "collectExpenseFormData st form h = Inr exp0"
      and "validateExpense exp0 trip = None"
      and "d' = upsertExpense (exp0\<lparr>e_createdAt := c\<rparr>) d"
      and "msg = ''Expense added.'' \<or> msg = ''Expense updated.''"
proof (cases "activeTrip st")
  case None
  with assms have "d' = d" "msg = ''Create/select a trip first.''"
    by (auto simp: handleExpenseSubmit_def)
  then show thesis by (rule that(1))
next
  case (Some trip)
  note trip = this
  show thesis
  proof (cases "collectExpenseFormData st form h")
    case (Inl e)
    with trip assms show thesis
      by (simp add: handleExpenseSubmit_def Let_def)
  next
    case (Inr exp0)
    note exp0 = this
    show thesis
    proof (cases "validateExpense exp0 trip")
      case (Some v)
      with trip exp0 assms have "d' = d" "v = msg"
        by (simp_all add: handleExpenseSubmit_def Let_def)
      with Some show thesis
        using that(2)[OF _ trip exp0] by simp
    next
      case None
      from None trip exp0 assms
      have msg: "msg = ''Expense added.'' \<or> msg = ''Expense updated.''"
        by (auto simp: handleExpenseSubmit_def Let_def split: if_splits)
      show thesis
      proof (cases "isSet (st_editingExpenseId st)")
        case False
        with None trip exp0 assms
        have "d' = upsertExpense (exp0\<lparr>e_createdAt := e_createdAt exp0\<rparr>) d"
          by (simp add: handleExpenseSubmit_def Let_def)
        then show thesis
          by (rule that(3)[OF trip exp0 None _ msg])
      next
        case True
        note editing = this
        show thesis
        proof (cases "getExpenseById (the (st_editingExpenseId st)) d")
          case None
          with \<open>validateExpense exp0 trip = None\<close> editing trip exp0 assms
          have "d' = upsertExpense (exp0\<lparr>e_createdAt := e_createdAt exp0\<rparr>) d"
            by (simp add: handleExpenseSubmit_def Let_def)
          then show thesis
            by (rule that(3)[OF trip exp0 \<open>validateExpense exp0 trip = None\<close> _ msg])
        next
          case (Some existing)
          with \<open>validateExpense exp0 trip = None\<close> editing trip exp0 assms
          have "d' = upsertExpense
              (exp0\<lparr>e_createdAt := orNum (e_createdAt existing) (e_createdAt exp0)\<rparr>) d"
            by (simp add: handleExpenseSubmit_def Let_def)
          then show thesis
            by (rule that(3)[OF trip exp0 \<open>validateExpense exp0 trip = None\<close> _ msg])
        qed
      qed
    qed
  qed
qed



text \<open>
  C10. The tags that \<open>collectExpenseFormData\<close> delivers are at most 10, each of at most
  24 characters, so \<open>validateExpense\<close> never answers \<open>Maximum 10 tags.\<close> for them; and
  whatever \<open>handleExpenseSubmit\<close> stores (and is then found under its id) has such tags,
  while its message is never that one.
\<close>

theorem expense_tags_truncated:
  "(\<forall>e. collectExpenseFormData st form h = Inr e \<longrightarrow>
      length (e_tags e) \<le> 10 \<and> (\<forall>t\<in>set (e_tags e). length t \<le> 24) \<and>
      (\<forall>trip. validateExpense e trip \<noteq> Some ''Maximum 10 tags.'')) \<and>
   (\<forall>msg d'. handleExpenseSubmit st form h d = Inr (msg, d') \<longrightarrow>
      msg \<noteq> ''Maximum 10 tags.'' \<and>
      (d' = d \<or>
       (\<exists>e. d' = upsertExpense e d \<and> getExpenseById (e_id e) d' = Some e \<and>
            length (e_tags e) \<le> 10 \<and> (\<forall>t\<in>set (e_tags e). length t \<le> 24))))"
proof (intro conjI allI impI)
  fix e assume c: "collectExpenseFormData st form h = Inr e"
  show "length (e_tags e) \<le> 10" "\<forall>t\<in>set (e_tags e). length t \<le> 24"
    using collect_tags[OF c] by simp_all
  fix trip show "validateExpense e trip \<noteq> Some ''Maximum 10 tags.''"
    using collect_tags(1)[OF c] by (rule validateExpense_tags)
next
  fix msg d' assume r: "handleExpenseSubmit st form h d = Inr (msg, d')"
  from r show "msg \<noteq> ''Maximum 10 tags.''"
  proof (cases rule: handleExpenseSubmit_cases)
    case no_trip
    then show ?thesis by simp
  next
    case (invalid trip exp0)
    from collect_tags(1)[OF invalid(3)]
    have "validateExpense exp0 trip \<noteq> Some ''Maximum 10 tags.''"
      by (rule validateExpense_tags)
    with invalid(4) show ?thesis by auto
  next
    case (stored trip exp0 c)
    then show ?thesis by auto
  qed
  from r show "d' = d \<or>
       (\<exists>e. d' = upsertExpense e d \<and> getExpenseById (e_id e) d' = Some e \<and>
            length (e_tags e) \<le> 10 \<and> (\<forall>t\<in>set (e_tags e). length t \<le> 24))"
  proof (cases rule: handleExpenseSubmit_cases)
    case no_trip
    then show ?thesis by simp
  next
    case (invalid trip exp0)
    then show ?thesis by simp
  next
    case (stored trip exp0 c)
    have "length (e_tags (exp0\<lparr>e_createdAt := c\<rparr>)) \<le> 10"
      "\<forall>t\<in>set (e_tags (exp0\<lparr>e_createdAt := c\<rparr>)). length t \<le> 24"
      using collect_tags[OF stored(2)] by simp_all
    with stored(4) upsertExpense_stored[of "exp0\<lparr>e_createdAt := c\<rparr>" d] show ?thesis
      by (intro disjI2 exI[of _ "exp0\<lparr>e_createdAt := c\<rparr>"]) simp
  qed
qed

theorem expense_tags_truncated_witness:
  "length (filter truthy (map trim (split CHR '','' (expTags ex_formTags)))) = 12 \<and>
   handleExpenseSubmit ex_state ex_formTags ex_host scenario_db =
     Inr (''Expense added.'',
          upsertExpense
            (scenario_expense\<lparr>e_tags := [''a'', ''bbbbbbbbbbbbbbbbbbbbbbbb'', ''c'', ''d'', ''e'',
                                          ''f'', ''g'', ''h'', ''i'', ''j'']\<rparr>) scenario_db) \<and>
   ''Expense added.'' \<noteq> ''Maximum 10 tags.''"
proof -
  have n: "length (filter truthy (map trim (split CHR '','' (expTags ex_formTags)))) = 12"
    by code_simp
  have r: "handleExpenseSubmit ex_state ex_formTags ex_host scenario_db =
     Inr (''Expense added.'',
          upsertExpense
            (scenario_expense\<lparr>e_tags := [''a'', ''bbbbbbbbbbbbbbbbbbbbbbbb'', ''c'', ''d'', ''e'',
                                          ''f'', ''g'', ''h'', ''i'', ''j'']\<rparr>) scenario_db)"
    by code_simp
  note expense_tags_truncated[of ex_state ex_formTags ex_host scenario_db,
      THEN conjunct2, rule_format, OF r]
  then have "''Expense added.'' \<noteq> ''Maximum 10 tags.''"
    by (rule conjunct1)
  with n r show ?thesis by simp
qed

subsection \<open>Conversion and rounding\<close>


text \<open>
  Only the code \<open>JPY\<close> has no decimals: any other base currency, also one without a
  minor unit, is rounded to 2 decimals.
\<close>

lemma decimalsFor_zero_iff: "decimalsFor currency = 0 \<longleftrightarrow> currency = ''JPY''"
  by (simp add: decimalsFor_def)

lemma roundBaseAmount_KRW: "roundBaseAmount (1 / 2) ''KRW'' = 1 / 2"
  by code_simp












subsection \<open>Aggregation\<close>

lemma foldl_total:
  "foldl (\<lambda>sum x. sum + orNum (e_amountBase x) 0) a items =
     a + sum_list (map e_amountBase items)"
  by (induction items arbitrary: a) (simp_all add: orNum_def)









subsection \<open>Burn rate\<close>

lemma daysElapsed_rule:
  "max (\<lfloor>(of_int (max ((if now < tripEnd then now else tripEnd) - tripStart) 0) :: rat)
           / (1000 * 60 * 60 * 24)\<rfloor> + 1) 1 =
   daysElapsedRule now tripStart tripEnd"
proof -
  define diff where "diff = min now tripEnd - tripStart"
  have m: "(if now < tripEnd then now else tripEnd) = min now tripEnd"
    by simp
  show ?thesis
  proof (cases "0 \<le> diff")
    case True
    then show ?thesis
      unfolding m daysElapsedRule_def diff_def[symmetric] by (simp add: max.commute)
  next
    case False
    then have "(of_int diff :: rat) / 86400000 < 0"
      by (simp add: divide_neg_pos)
    then have "\<lfloor>(of_int diff :: rat) / 86400000\<rfloor> < 0"
      by (simp only: floor_less_zero)
    with False show ?thesis
      unfolding m daysElapsedRule_def diff_def[symmetric] by simp
  qed
qed

lemma daysElapsedRule_positive: "1 \<le> daysElapsedRule now tripStart tripEnd"
  by (simp add: daysElapsedRule_def)

text \<open>
  C9. With the budget enabled, the dashboard's average per day is the total divided by
  the elapsed days, and the elapsed days are those of the rule: the whole days from the
  trip's start to the earlier of now and the trip's end, plus one, and never less than
  one, wherever now lies.
\<close>

theorem burn_rate_average:
  assumes "activeTrip st = Some trip" and "t_budgetEnabled trip"
  shows "\<exists>dash b. renderDashboard parseDate now st = Some dash \<and> d_budget dash = Some b \<and>
           b_daysElapsed b =
             daysElapsedRule now (parseDate (t_startDate trip @ ''T00:00''))
               (parseDate (t_endDate trip @ ''T23:59'')) \<and>
           1 \<le> b_daysElapsed b \<and>
           b_avgPerDay b = d_total dash / of_int (b_daysElapsed b) \<and>
           d_total dash = sum_list (map e_amountBase (filteredExpenses st))"
proof -
  define total where "total = sum_list (map e_amountBase (filteredExpenses st))"
  define days where "days = daysElapsedRule now (parseDate (t_startDate trip @ ''T00:00''))
               (parseDate (t_endDate trip @ ''T23:59''))"
  define b where "b = \<lparr>b_remaining = orNum (t_budgetAmountBase trip) 0 - total,
      b_daysElapsed = days, b_avgPerDay = total / of_int days\<rparr>"
  define dash where "dash = \<lparr>d_total = total,
      d_byCategory = aggregateBy (filteredExpenses st) e_category,
      d_byPayment = aggregateBy (filteredExpenses st) e_payment,
      d_byDay = aggregateByDay (filteredExpenses st), d_budget = Some b\<rparr>"
  have "renderDashboard parseDate now st = Some dash"
    unfolding renderDashboard_def Let_def dash_def b_def days_def total_def
    using assms by (simp only: option.case if_True daysElapsed_rule foldl_total add_0)
  moreover have "1 \<le> days"
    unfolding days_def by (rule daysElapsedRule_positive)
  ultimately show ?thesis
    by (intro exI[of _ dash] exI[of _ b]) (simp add: dash_def b_def days_def total_def)
qed

theorem burn_rate_average_witness:
  "activeTrip ex_stateThree = Some ex_trip \<and> t_budgetEnabled ex_trip \<and>
   daysElapsedRule (- 5) 0 (3 * 86400000 - 60000) = 1 \<and>
   daysElapsedRule (2 * 86400000 - 1) 0 (3 * 86400000 - 60000) = 2 \<and>
   daysElapsedRule (99 * 86400000) 0 (3 * 86400000 - 60000) = 3 \<and>
   (\<exists>dash b. renderDashboard ex_parseDate (2 * 86400000 - 1) ex_stateThree = Some dash \<and>
      d_budget dash = Some b \<and> b_daysElapsed b = 2 \<and> b_avgPerDay b = 4500)"
proof -
  have a: "activeTrip ex_stateThree = Some ex_trip"
    by (simp add: activeTrip_def ex_stateThree_def ex_state_def ex_trip_def)
  have e: "t_budgetEnabled ex_trip"
    by (simp add: ex_trip_def)
  have d1: "daysElapsedRule (- 5) 0 (3 * 86400000 - 60000) = 1"
    by code_simp
  have d2: "daysElapsedRule (2 * 86400000 - 1) 0 (3 * 86400000 - 60000) = 2"
    by code_simp
  have d3: "daysElapsedRule (99 * 86400000) 0 (3 * 86400000 - 60000) = 3"
    by code_simp
  have s: "ex_parseDate (t_startDate ex_trip @ ''T00:00'') = 0"
    and t: "ex_parseDate (t_endDate ex_trip @ ''T23:59'') = 3 * 86400000 - 60000"
    by (simp_all add: ex_parseDate_def ex_trip_def)
  have total: "sum_list (map e_amountBase (filteredExpenses ex_stateThree)) = 9000"
    by code_simp
  from burn_rate_average[OF a e, of ex_parseDate "2 * 86400000 - 1"]
  obtain dash b where "renderDashboard ex_parseDate (2 * 86400000 - 1) ex_stateThree = Some dash"
    and "d_budget dash = Some b"
    and "b_daysElapsed b = daysElapsedRule (2 * 86400000 - 1) 0 (3 * 86400000 - 60000)"
    and "b_avgPerDay b = d_total dash / of_int (b_daysElapsed b)"
    and "d_total dash = 9000"
    unfolding s t total by blast
  then have "\<exists>dash b. renderDashboard ex_parseDate (2 * 86400000 - 1) ex_stateThree = Some dash \<and>
      d_budget dash = Some b \<and> b_daysElapsed b = 2 \<and> b_avgPerDay b = 4500"
    unfolding d2 by (intro exI[of _ dash] exI[of _ b]) simp
  with a e d1 d2 d3 show ?thesis
    by blast
qed

end
